theory Spec2Isabelle
  imports Complex_Main
begin

section \<open>Text, errors and basic string operations\<close>

text \<open>
  The program (\<^verbatim>\<open>analyze_stocks.py\<close>) works on Python \<^verbatim>\<open>str\<close> values that hold
  Chinese text, so a string is modelled as the list of its Unicode code points
  (Python's \<^verbatim>\<open>ord\<close> of each character): \<open>length\<close> counts what Python's \<^verbatim>\<open>len\<close> counts.
\<close>

type_synonym ustr = "nat list"

text \<open>The exceptions the modelled code can meet; each \<^verbatim>\<open>except\<close> clause is a case split.\<close>

datatype error = OSError | UnicodeDecodeError | IndexError | KeyError | ParserError | AttributeError

text \<open>The string literals of the source, as code points.\<close>

definition s_code :: ustr where \<comment> \<open>the column name \<^verbatim>\<open>daima\<close> (code), U+4EE3 U+7801\<close>
  "s_code = [20195, 30721]"

definition s_name :: ustr where \<comment> \<open>the column name \<^verbatim>\<open>mingcheng\<close> (name), U+540D U+79F0\<close>
  "s_name = [21517, 31216]"

definition s_dup :: ustr where \<comment> \<open>\<^verbatim>\<open>chongfu\<close> (duplicate), U+91CD U+590D\<close>
  "s_dup = [37325, 22797]"

definition s_source :: ustr where \<comment> \<open>\<^verbatim>\<open>shuju laiyuan\<close> (data source), U+6570 U+636E U+6765 U+6E90\<close>
  "s_source = [25968, 25454, 26469, 28304]"

definition s_time :: ustr where \<comment> \<open>\<^verbatim>\<open>shijian\<close> (time), U+65F6 U+95F4\<close>
  "s_time = [26102, 38388]"

definition s_unclassified :: ustr where \<comment> \<open>\<^verbatim>\<open>weifenlei\<close> (unclassified), U+672A U+5206 U+7C7B\<close>
  "s_unclassified = [26410, 20998, 31867]"

definition s_99 :: ustr where \<comment> \<open>\<^verbatim>\<open>'99'\<close>\<close>
  "s_99 = [57, 57]"

text \<open>\<^verbatim>\<open>s.startswith(p)\<close>.\<close>

fun startswith :: "ustr \<Rightarrow> ustr \<Rightarrow> bool" where
  "startswith s [] = True"
| "startswith [] (p # ps) = False"
| "startswith (c # cs) (p # ps) = (c = p \<and> startswith cs ps)"

text \<open>\<^verbatim>\<open>sub in s\<close> on strings: \<open>sub\<close> occurs in \<open>s\<close> as a contiguous substring.\<close>

fun str_in :: "ustr \<Rightarrow> ustr \<Rightarrow> bool" where
  "str_in sub [] = (sub = [])"
| "str_in sub (c # cs) = (startswith (c # cs) sub \<or> str_in sub cs)"

section \<open>Classifying a document: \<^verbatim>\<open>is_stock_list\<close>\<close>

text \<open>
  \<^verbatim>\<open>is_stock_list(file_path)\<close> opens the file with encoding GBK and reads its first line.
  The model takes the outcome of that read: \<open>Inr first_line\<close> when \<^verbatim>\<open>open\<close> and
  \<^verbatim>\<open>readline\<close> returned the decoded line, \<open>Inl e\<close> when either raised. The bare
  \<^verbatim>\<open>except:\<close> turns every exception into \<^verbatim>\<open>False\<close>.
\<close>

definition is_stock_list :: "error + ustr \<Rightarrow> bool" where
  "is_stock_list readline_result =
     (case readline_result of
        Inl e \<Rightarrow> False
      | Inr first_line \<Rightarrow> str_in s_code first_line \<and> str_in s_name first_line)"

text \<open>
  \<^verbatim>\<open>c.isspace()\<close> for one character: the code points Python (and the \<^verbatim>\<open>\s\<close> class of
  \<^verbatim>\<open>re\<close> on a \<^verbatim>\<open>str\<close> pattern) counts as whitespace.
\<close>

definition isspace :: "nat \<Rightarrow> bool" where
  "isspace c = (c \<in> set [9, 10, 11, 12, 13, 28, 29, 30, 31, 32, 133, 160, 5760,
                           8192, 8193, 8194, 8195, 8196, 8197, 8198, 8199, 8200, 8201, 8202,
                           8232, 8233, 8239, 8287, 12288])"

text \<open>\<^verbatim>\<open>s.strip()\<close>: leading and trailing whitespace removed.\<close>

definition strip :: "ustr \<Rightarrow> ustr" where
  "strip s = rev (dropWhile isspace (rev (dropWhile isspace s)))"

text \<open>
  \<^verbatim>\<open>c.isdigit()\<close> depends on the Unicode tables of the interpreter, so the functions
  below take it as the parameter \<open>isdigit\<close>. On the ASCII range it is \<open>ascii_isdigit\<close>.
\<close>

definition ascii_isdigit :: "nat \<Rightarrow> bool" where
  "ascii_isdigit c = (48 \<le> c \<and> c \<le> 57)"

section \<open>The watchlist: \<^verbatim>\<open>analyze_stock_list\<close>\<close>

text \<open>
  A row of the watchlist table, with the columns the analysis reads: \<open>code\<close> is the cell
  of the code column (a \<^verbatim>\<open>str\<close>: \<^verbatim>\<open>read_stock_list\<close> has applied \<^verbatim>\<open>astype(str)\<close>
  to that column), \<open>name\<close> the \<^verbatim>\<open>str\<close> of the name cell, \<open>price\<close> the current price as
  text, and \<open>change\<close> the cell of the percent-change column, a float column:
  \<open>None\<close> is NaN. The code column is present (without it the source raises KeyError).
\<close>

record row =
  code :: ustr
  name :: ustr
  price :: ustr
  change :: "rat option"

text \<open>\<^verbatim>\<open>astype(str).str.startswith('99')\<close>: the market-index predicate.\<close>

definition is_index :: "row \<Rightarrow> bool" where
  "is_index r = startswith (code r) s_99"

text \<open>
  The grouping loop. \<^verbatim>\<open>groups\<close> is a dict, whose iteration order is insertion order:
  an association list with distinct keys, new keys appended.
\<close>

type_synonym groups = "(ustr \<times> row list) list"

definition is_marker :: "(nat \<Rightarrow> bool) \<Rightarrow> row \<Rightarrow> bool" where
  \<comment> \<open>\<^verbatim>\<open>not code or not code[0].isdigit()\<close>, on the stripped code\<close>
  "is_marker isdigit r = (case strip (code r) of [] \<Rightarrow> True | c # _ \<Rightarrow> \<not> isdigit c)"

definition group_label :: "row \<Rightarrow> ustr" where
  \<comment> \<open>\<^verbatim>\<open>group_name = code if code else name\<close>\<close>
  "group_label r = (if strip (code r) \<noteq> [] then strip (code r) else strip (name r))"

definition ensure_group :: "ustr \<Rightarrow> groups \<Rightarrow> groups" where
  \<comment> \<open>\<^verbatim>\<open>if g not in groups: groups[g] = []\<close>\<close>
  "ensure_group g gs = (if g \<in> fst ` set gs then gs else gs @ [(g, [])])"

definition append_row :: "ustr \<Rightarrow> row \<Rightarrow> groups \<Rightarrow> groups" where
  \<comment> \<open>\<^verbatim>\<open>groups[g].append(row)\<close>\<close>
  "append_row g r gs = map (\<lambda>(k, rows). if k = g then (k, rows @ [r]) else (k, rows)) gs"

definition group_step :: "(nat \<Rightarrow> bool) \<Rightarrow> groups \<times> ustr \<Rightarrow> row \<Rightarrow> groups \<times> ustr" where
  "group_step isdigit st r =
     (case st of (gs, current_group) \<Rightarrow>
        if is_marker isdigit r then
          (let group_name = group_label r in
           if group_name \<noteq> [] \<and> \<not> str_in s_dup group_name \<and> \<not> str_in s_source group_name
           then (ensure_group group_name gs, group_name)
           else (gs, current_group))
        else (append_row current_group r (ensure_group current_group gs), current_group))"

definition group_rows :: "(nat \<Rightarrow> bool) \<Rightarrow> row list \<Rightarrow> groups \<times> ustr" where
  "group_rows isdigit df = foldl (group_step isdigit) ([], s_unclassified) df"

definition group_dfs :: "(nat \<Rightarrow> bool) \<Rightarrow> row list \<Rightarrow> groups" where
  \<comment> \<open>only the groups that have rows become tables\<close>
  "group_dfs isdigit df = filter (\<lambda>(g, rows). rows \<noteq> []) (fst (group_rows isdigit df))"

definition all_stocks :: "(nat \<Rightarrow> bool) \<Rightarrow> row list \<Rightarrow> row list" where
  \<comment> \<open>\<^verbatim>\<open>pd.concat(group_dfs.values()) if group_dfs else df\<close>\<close>
  "all_stocks isdigit df =
     (if group_dfs isdigit df \<noteq> [] then concat (map snd (group_dfs isdigit df)) else df)"

definition all_codes :: "groups \<Rightarrow> (ustr \<times> ustr) list" where
  \<comment> \<open>the pairs \<^verbatim>\<open>(c, g)\<close> of the non-index codes of every group, in group order\<close>
  "all_codes gdfs =
     concat (map (\<lambda>(g, gdf). map (\<lambda>r. (code r, g)) (filter (\<lambda>r. \<not> is_index r) gdf)) gdfs)"

text \<open>The keys of a \<^verbatim>\<open>Counter\<close> (a dict) in first-seen order.\<close>

fun first_seen :: "ustr list \<Rightarrow> ustr list \<Rightarrow> ustr list" where
  "first_seen seen [] = []"
| "first_seen seen (c # cs) =
     (if c \<in> set seen then first_seen seen cs else c # first_seen (c # seen) cs)"

definition duplicates_of :: "(ustr \<times> ustr) list \<Rightarrow> (ustr \<times> ustr list) list" where
  \<comment> \<open>\<^verbatim>\<open>{c: [] for c, cnt in code_counts.items() if cnt > 1}\<close>, then every \<^verbatim>\<open>g\<close> appended\<close>
  "duplicates_of acs =
     map (\<lambda>c. (c, map snd (filter (\<lambda>(c', g). c' = c) acs)))
       (filter (\<lambda>c. count_list (map fst acs) c > 1) (first_seen [] (map fst acs)))"

text \<open>\<^verbatim>\<open>drop_duplicates(subset=[code column])\<close>, which keeps the first row of each code.\<close>

fun drop_duplicates :: "ustr list \<Rightarrow> row list \<Rightarrow> row list" where
  "drop_duplicates seen [] = []"
| "drop_duplicates seen (r # rs) =
     (if code r \<in> set seen then drop_duplicates seen rs
      else r # drop_duplicates (code r # seen) rs)"

text \<open>
  \<^verbatim>\<open>sort_values(change column, ascending=False)\<close>: larger values first, NaN last.
  The model is an insertion sort that keeps the table order of equal keys; the library
  does not promise that order, and nothing proved here depends on it.
\<close>

fun precedes :: "rat option \<Rightarrow> rat option \<Rightarrow> bool" where
  "precedes (Some x) (Some y) = (x > y)"
| "precedes (Some x) None = True"
| "precedes None _ = False"

fun insert_desc :: "row \<Rightarrow> row list \<Rightarrow> row list" where
  "insert_desc r [] = [r]"
| "insert_desc r (y # ys) =
     (if precedes (change y) (change r) then y # insert_desc r ys else r # y # ys)"

definition sort_values_desc :: "row list \<Rightarrow> row list" where
  "sort_values_desc rs = foldr insert_desc rs []"

definition group_listing :: "groups \<Rightarrow> groups" where
  \<comment> \<open>the per-group listing: index rows filtered out, empty groups skipped, sorted\<close>
  "group_listing gdfs =
     map (\<lambda>(g, gdf_stocks). (g, sort_values_desc gdf_stocks))
       (filter (\<lambda>(g, gdf_stocks). gdf_stocks \<noteq> [])
          (map (\<lambda>(g, gdf). (g, filter (\<lambda>r. \<not> is_index r) gdf)) gdfs))"

text \<open>What the analysis computes: the two returned tables and the structures it reports.\<close>

record analysis =
  stock_df :: "row list"
  index_df :: "row list"
  duplicates :: "(ustr \<times> ustr list) list"
  listing :: groups
  top5 :: "row list"
  bottom5 :: "row list"

definition tail_rows :: "nat \<Rightarrow> row list \<Rightarrow> row list" where
  \<comment> \<open>\<^verbatim>\<open>df.tail(n)\<close>\<close>
  "tail_rows n rs = drop (length rs - n) rs"

definition analyze_stock_list :: "(nat \<Rightarrow> bool) \<Rightarrow> row list \<Rightarrow> analysis option" where
  "analyze_stock_list isdigit df =
     (if df = [] then None
      else
        let gdfs = group_dfs isdigit df;
            stocks = all_stocks isdigit df;
            sdf = drop_duplicates [] (filter (\<lambda>r. \<not> is_index r) stocks)
        in Some \<lparr> stock_df = sdf,
                  index_df = filter is_index stocks,
                  duplicates = duplicates_of (all_codes gdfs),
                  listing = group_listing gdfs,
                  top5 = take 5 sdf,
                  bottom5 = rev (tail_rows 5 sdf) \<rparr>)"

section \<open>Tables as the reader returns them\<close>

text \<open>
  A table read by \<^verbatim>\<open>pd.read_csv\<close>: the column names and the rows, each row holding one
  cell per column. A cell of a text column is a \<^verbatim>\<open>str\<close> or, where the field was empty,
  NaN. (Numeric cells are not distinguished: their \<^verbatim>\<open>str\<close> is what \<open>Text\<close> holds.)
\<close>

datatype cell = NaN | Text ustr

record dataframe =
  columns :: "ustr list"
  cells :: "cell list list"

definition rectangular :: "dataframe \<Rightarrow> bool" where
  "rectangular df = list_all (\<lambda>r. length r = length (columns df)) (cells df)"

definition astype_str :: "cell \<Rightarrow> ustr" where
  \<comment> \<open>\<^verbatim>\<open>astype(str)\<close> on one cell: NaN becomes the text \<^verbatim>\<open>nan\<close>\<close>
  "astype_str c = (case c of NaN \<Rightarrow> [110, 97, 110] | Text s \<Rightarrow> s)"

definition strip_columns :: "dataframe \<Rightarrow> dataframe" where
  \<comment> \<open>\<^verbatim>\<open>df.columns = [str(c).strip() for c in df.columns]\<close>\<close>
  "strip_columns df = df\<lparr>columns := map strip (columns df)\<rparr>"

section \<open>Reading a watchlist: \<^verbatim>\<open>read_stock_list\<close>\<close>

text \<open>\<^verbatim>\<open>s.replace(old, '')\<close>: the occurrences of \<open>old\<close> removed, left to right.\<close>

function str_remove :: "ustr \<Rightarrow> ustr \<Rightarrow> ustr" where
  "str_remove old [] = []"
| "str_remove old (c # cs) =
     (if old \<noteq> [] \<and> startswith (c # cs) old
      then str_remove old (drop (length old) (c # cs))
      else c # str_remove old cs)"
  by pat_completeness auto
termination
  by (relation "measure (\<lambda>(old, s). length s)") auto

definition clean_code :: "ustr \<Rightarrow> ustr" where
  \<comment> \<open>\<^verbatim>\<open>.str.replace('="', '').str.replace('"', '')\<close>\<close>
  "clean_code s = str_remove [34] (str_remove [61, 34] s)"

definition column_index :: "ustr \<Rightarrow> ustr list \<Rightarrow> nat" where
  "column_index c cols = length (takeWhile (\<lambda>x. x \<noteq> c) cols)"

definition clean_row :: "nat \<Rightarrow> cell list \<Rightarrow> cell list" where
  \<comment> \<open>the cell of column \<open>i\<close> replaced by its cleaned text\<close>
  "clean_row i r = r[i := Text (clean_code (astype_str (r ! i)))]"

definition clean_code_column :: "dataframe \<Rightarrow> error + dataframe" where
  \<comment> \<open>with two columns of that name \<^verbatim>\<open>df[name]\<close> is a table, which has no \<^verbatim>\<open>.str\<close>\<close>
  "clean_code_column df =
     (if s_code \<in> set (columns df) then
        (if count_list (columns df) s_code > 1 then Inl AttributeError
         else Inr (df\<lparr>cells := map (clean_row (column_index s_code (columns df))) (cells df)\<rparr>))
      else Inr df)"

definition is_comment_row :: "cell list \<Rightarrow> bool" where
  \<comment> \<open>\<^verbatim>\<open>df.iloc[:, 0].astype(str).str.startswith('#')\<close> for one row\<close>
  "is_comment_row r = (case r of [] \<Rightarrow> False | c # _ \<Rightarrow> startswith (astype_str c) [35])"

definition drop_comment_rows :: "dataframe \<Rightarrow> error + dataframe" where
  \<comment> \<open>\<^verbatim>\<open>iloc[:, 0]\<close> raises IndexError on a table without columns\<close>
  "drop_comment_rows df =
     (if columns df = [] then Inl IndexError
      else Inr (df\<lparr>cells := filter (\<lambda>r. \<not> is_comment_row r) (cells df)\<rparr>))"

text \<open>
  \<^verbatim>\<open>read_stock_list(file_path)\<close>. The model takes what the file system and the parser
  give: \<open>gbk_lines\<close>, the outcome of \<^verbatim>\<open>open\<close> and \<^verbatim>\<open>readlines\<close>, and \<open>csv\<close>, the outcome
  of \<^verbatim>\<open>pd.read_csv(sep='\t', encoding='gbk', skipinitialspace=True)\<close>. Every exception
  ends in \<^verbatim>\<open>return None\<close>.
\<close>

definition read_stock_list :: "error + ustr list \<Rightarrow> error + dataframe \<Rightarrow> dataframe option" where
  "read_stock_list gbk_lines csv =
     (case gbk_lines of
        Inl e \<Rightarrow> None
      | Inr lines \<Rightarrow>
          (case csv of
             Inl e \<Rightarrow> None
           | Inr df \<Rightarrow>
               (case clean_code_column (strip_columns df) of
                  Inl e \<Rightarrow> None
                | Inr df1 \<Rightarrow>
                    (case drop_comment_rows df1 of
                       Inl e \<Rightarrow> None
                     | Inr df2 \<Rightarrow> Some df2))))"

section \<open>Reading an export: \<^verbatim>\<open>read_tdx_export\<close>\<close>

text \<open>
  The regular expression of the spreadsheet branch,
  \<^verbatim>\<open>([\u4e00-\u9fa5]+)\s*[\(P]([0-9]+)[\)Q]\<close> (where P and Q stand for the fullwidth
  parentheses U+FF08 and U+FF09, which the classes hold beside the ASCII ones), used with \<^verbatim>\<open>re.search\<close>.
\<close>

definition is_cjk :: "nat \<Rightarrow> bool" where
  "is_cjk c = (19968 \<le> c \<and> c \<le> 40869)"

definition is_open_paren :: "nat \<Rightarrow> bool" where
  "is_open_paren c = (c = 40 \<or> c = 65288)"

definition is_close_paren :: "nat \<Rightarrow> bool" where
  "is_close_paren c = (c = 41 \<or> c = 65289)"

record stock_info =
  info_name :: ustr
  info_code :: ustr

text \<open>
  A match that starts at the head of \<open>s\<close>. The three repetitions are greedy; the character
  after each of them cannot belong to the repeated class, so the longest run is the only
  one that can go on to match (\<open>match_here_iff\<close> below), and no backtracking is written.
\<close>

definition match_here :: "ustr \<Rightarrow> stock_info option" where
  "match_here s =
     (let nm = takeWhile is_cjk s; r1 = dropWhile is_cjk s in
      if nm = [] then None
      else
        (case dropWhile isspace r1 of
           [] \<Rightarrow> None
         | p # r2 \<Rightarrow>
             if \<not> is_open_paren p then None
             else
               (let ds = takeWhile ascii_isdigit r2 in
                if ds = [] then None
                else
                  (case dropWhile ascii_isdigit r2 of
                     [] \<Rightarrow> None
                   | q # _ \<Rightarrow>
                       if is_close_paren q then Some \<lparr>info_name = nm, info_code = ds\<rparr>
                       else None))))"

text \<open>\<^verbatim>\<open>re.search\<close>: the match at the leftmost position that has one.\<close>

fun re_search :: "ustr \<Rightarrow> stock_info option" where
  "re_search [] = None"
| "re_search (c # cs) =
     (case match_here (c # cs) of Some m \<Rightarrow> Some m | None \<Rightarrow> re_search cs)"

text \<open>The header row: the first line that contains \<open>s_time\<close>, else row 0.\<close>

fun header_from :: "nat \<Rightarrow> ustr list \<Rightarrow> nat" where
  "header_from i [] = 0"
| "header_from i (l # ls) = (if str_in s_time l then i else header_from (Suc i) ls)"

definition header_idx :: "ustr list \<Rightarrow> nat" where
  "header_idx lines = header_from 0 lines"

datatype encoding = GBK | UTF8 | GB2312

text \<open>
  What the file system and the library give for one file: whether it exists, its suffix in
  lower case, the outcome of \<^verbatim>\<open>open(encoding='gbk')\<close> with \<^verbatim>\<open>readlines\<close>, and the outcomes
  of the library parsers: \<^verbatim>\<open>pd.read_csv\<close> with a comma, \<^verbatim>\<open>pd.read_csv\<close> with a tab and
  \<^verbatim>\<open>skiprows\<close>, and \<^verbatim>\<open>pd.read_excel\<close>.
\<close>

record file_env =
  file_exists :: bool
  suffix :: ustr
  gbk_readlines :: "error + ustr list"
  read_csv :: "encoding \<Rightarrow> error + dataframe"
  read_csv_tab :: "encoding \<Rightarrow> nat \<Rightarrow> error + dataframe"
  read_excel :: "error + dataframe"

text \<open>
  The reader's effects are its calls to the file system and to the library. Each call is
  made through one of the four functions below, which returns what the environment gives
  and appends the call to the log of calls made so far; the reader threads that log.
\<close>

datatype call = OpenReadlines | ReadCsv encoding | ReadCsvTab encoding nat | ReadExcel

definition call_readlines :: "file_env \<Rightarrow> call list \<Rightarrow> (error + ustr list) \<times> call list" where
  "call_readlines env tr = (gbk_readlines env, tr @ [OpenReadlines])"

definition call_read_csv ::
  "file_env \<Rightarrow> encoding \<Rightarrow> call list \<Rightarrow> (error + dataframe) \<times> call list" where
  "call_read_csv env e tr = (read_csv env e, tr @ [ReadCsv e])"

definition call_read_csv_tab ::
  "file_env \<Rightarrow> encoding \<Rightarrow> nat \<Rightarrow> call list \<Rightarrow> (error + dataframe) \<times> call list" where
  "call_read_csv_tab env e n tr = (read_csv_tab env e n, tr @ [ReadCsvTab e n])"

definition call_read_excel :: "file_env \<Rightarrow> call list \<Rightarrow> (error + dataframe) \<times> call list" where
  "call_read_excel env tr = (read_excel env, tr @ [ReadExcel])"

text \<open>
  The loop over the encodings of the \<^verbatim>\<open>.csv\<close> and \<^verbatim>\<open>.txt\<close> branches: a
  UnicodeDecodeError goes on to the next encoding, any other exception reaches the outer
  handler (\<^verbatim>\<open>return None, None\<close>), and so does the end of the loop.
\<close>

fun try_encodings ::
  "(encoding \<Rightarrow> call list \<Rightarrow> (error + dataframe) \<times> call list) \<Rightarrow> encoding list \<Rightarrow> call list
     \<Rightarrow> dataframe option \<times> call list" where
  "try_encodings rd [] tr = (None, tr)"
| "try_encodings rd (e # es) tr =
     (case rd e tr of
        (Inr df, tr1) \<Rightarrow> (Some df, tr1)
      | (Inl err, tr1) \<Rightarrow>
          (if err = UnicodeDecodeError then try_encodings rd es tr1 else (None, tr1)))"

text \<open>
  The first \<^verbatim>\<open>try\<close> block of the spreadsheet branch: the file read as tab-delimited
  text. It returns the table or the exception, the value \<^verbatim>\<open>stock_info\<close> has when the block
  is left (it is assigned before the parser runs, and kept if the parser raises), and the
  log. \<^verbatim>\<open>lines[0]\<close> raises IndexError on a file without lines.
\<close>

definition xls_text_path ::
  "file_env \<Rightarrow> call list \<Rightarrow> (error + dataframe) \<times> stock_info option \<times> call list" where
  "xls_text_path env tr =
     (case call_readlines env tr of
        (Inl e, tr1) \<Rightarrow> (Inl e, None, tr1)
      | (Inr lines, tr1) \<Rightarrow>
          (case lines of
             [] \<Rightarrow> (Inl IndexError, None, tr1)
           | l0 # _ \<Rightarrow>
               (let first_line = strip l0;
                    info = re_search first_line
                in case call_read_csv_tab env GBK (header_idx lines) tr1 of
                     (Inl e, tr2) \<Rightarrow> (Inl e, info, tr2)
                   | (Inr df, tr2) \<Rightarrow> (Inr (strip_columns df), info, tr2))))"

text \<open>
  The spreadsheet branch: the text path, and \<^verbatim>\<open>pd.read_excel\<close> in a second \<^verbatim>\<open>try\<close>
  block that is reached only when the first one raised (it returns otherwise).
\<close>

definition read_xls ::
  "file_env \<Rightarrow> call list \<Rightarrow> call list \<times> (dataframe \<times> stock_info option) option" where
  "read_xls env tr =
     (case xls_text_path env tr of
        (Inr df, info, tr1) \<Rightarrow> (tr1, Some (df, info))
      | (Inl e, info, tr1) \<Rightarrow>
          (case call_read_excel env tr1 of
             (Inr df, tr2) \<Rightarrow> (tr2, Some (df, info))
           | (Inl e', tr2) \<Rightarrow> (tr2, None)))"

definition s_csv :: ustr where "s_csv = [46, 99, 115, 118]"
definition s_txt :: ustr where "s_txt = [46, 116, 120, 116]"
definition s_xls :: ustr where "s_xls = [46, 120, 108, 115]"
definition s_xlsx :: ustr where "s_xlsx = [46, 120, 108, 115, 120]"

text \<open>
  \<^verbatim>\<open>read_tdx_export(file_path)\<close>: the calls made, in order, and the pair returned
  (\<open>None\<close> is \<^verbatim>\<open>(None, None)\<close>).
\<close>

definition read_tdx_export :: "file_env \<Rightarrow> call list \<times> (dataframe \<times> stock_info option) option" where
  "read_tdx_export env =
     (if \<not> file_exists env then ([], None)
      else if suffix env = s_csv then
        (case try_encodings (call_read_csv env) [GBK, UTF8, GB2312] [] of
           (res, tr) \<Rightarrow> (tr, map_option (\<lambda>df. (df, None)) res))
      else if suffix env = s_txt then
        (case try_encodings (\<lambda>e. call_read_csv_tab env e 0) [GBK, UTF8, GB2312] [] of
           (res, tr) \<Rightarrow> (tr, map_option (\<lambda>df. (df, None)) res))
      else if suffix env \<in> {s_xls, s_xlsx} then read_xls env []
      else ([], None))"

section \<open>The price series: \<^verbatim>\<open>analyze_kline\<close>\<close>

text \<open>
  The values of the close column after \<^verbatim>\<open>pd.to_numeric(errors='coerce')\<close> are floats.
  Float arithmetic rounds and overflows, so it is not written out here: the type \<open>'f\<close> of
  the floats and the operations on it that the price block uses are parameters, and what
  is proved holds for every choice of them, the library's float64 among them.
\<close>

record 'f float_ops =
  fsub :: "'f \<Rightarrow> 'f \<Rightarrow> 'f"
  fdiv :: "'f \<Rightarrow> 'f \<Rightarrow> 'f"
  fmul :: "'f \<Rightarrow> 'f \<Rightarrow> 'f"
  f100 :: 'f

text \<open>
  \<^verbatim>\<open>(close.iloc[-1] - close.iloc[0]) / close.iloc[0] * 100\<close>; \<open>f100\<close> is the float of
  the literal \<^verbatim>\<open>100\<close>. None of the three operations raises on floats: a division by
  zero gives \<^verbatim>\<open>inf\<close>, \<^verbatim>\<open>-inf\<close> or \<^verbatim>\<open>nan\<close> (and a warning).
\<close>

definition total_change :: "'f float_ops \<Rightarrow> 'f \<Rightarrow> 'f \<Rightarrow> 'f" where
  "total_change ops first_close last_close =
     fmul ops (fdiv ops (fsub ops last_close first_close) first_close) (f100 ops)"

text \<open>
  The price block of \<^verbatim>\<open>analyze_kline\<close> for a table that has a close column:
  \<^verbatim>\<open>close.iloc[-1]\<close> raises IndexError on an empty series; the percent change is
  computed, and printed, under the guard \<^verbatim>\<open>len(close) > 1\<close> alone. The result is the
  latest close and the percent change when one is printed.
\<close>

definition price_summary :: "'f float_ops \<Rightarrow> 'f list \<Rightarrow> error + 'f \<times> 'f option" where
  "price_summary ops close =
     (if close = [] then Inl IndexError
      else Inr (last close,
                if length close > 1 then Some (total_change ops (hd close) (last close))
                else None))"

text \<open>
  Sample floats, to run the price block on an example: the rationals with \<^verbatim>\<open>inf\<close>,
  \<^verbatim>\<open>-inf\<close> and \<^verbatim>\<open>nan\<close>, and operations that follow IEEE 754 on the special values
  and are exact on the finite ones (the sign of a zero is not kept). They are not the
  library's operations, which round; they give the library's results on operands where
  float64 is exact, as it is at every step of the two examples below.
\<close>

datatype xfloat = Fin rat | PInf | NInf | QNaN

fun neg_x :: "xfloat \<Rightarrow> xfloat" where
  "neg_x (Fin a) = Fin (- a)"
| "neg_x PInf = NInf"
| "neg_x NInf = PInf"
| "neg_x QNaN = QNaN"

fun sub_x :: "xfloat \<Rightarrow> xfloat \<Rightarrow> xfloat" where
  "sub_x QNaN y = QNaN"
| "sub_x x QNaN = QNaN"
| "sub_x (Fin a) (Fin b) = Fin (a - b)"
| "sub_x (Fin a) y = neg_x y"
| "sub_x PInf PInf = QNaN"
| "sub_x NInf NInf = QNaN"
| "sub_x x y = x"

fun signed_inf :: "rat \<Rightarrow> xfloat \<Rightarrow> xfloat" where
  \<comment> \<open>an infinity multiplied or divided by a finite value of the given sign\<close>
  "signed_inf b x = (if b < 0 then neg_x x else x)"

fun div_x :: "xfloat \<Rightarrow> xfloat \<Rightarrow> xfloat" where
  "div_x QNaN y = QNaN"
| "div_x x QNaN = QNaN"
| "div_x (Fin a) (Fin b) =
     (if b \<noteq> 0 then Fin (a / b)
      else if a > 0 then PInf else if a < 0 then NInf else QNaN)"
| "div_x (Fin a) y = Fin 0"
| "div_x x (Fin b) = signed_inf b x"
| "div_x x y = QNaN"

fun mul_x :: "xfloat \<Rightarrow> xfloat \<Rightarrow> xfloat" where
  "mul_x QNaN y = QNaN"
| "mul_x x QNaN = QNaN"
| "mul_x (Fin a) (Fin b) = Fin (a * b)"
| "mul_x (Fin a) y = (if a = 0 then QNaN else signed_inf a y)"
| "mul_x x (Fin b) = (if b = 0 then QNaN else signed_inf b x)"
| "mul_x PInf y = y"
| "mul_x NInf y = neg_x y"

definition sample_ops :: "xfloat float_ops" where
  "sample_ops = \<lparr>fsub = sub_x, fdiv = div_x, fmul = mul_x, f100 = Fin 100\<rparr>"

section \<open>Example inputs\<close>

text \<open>The inputs at which the theorems below are evaluated.\<close>

definition mk_row :: "ustr \<Rightarrow> ustr \<Rightarrow> ustr \<Rightarrow> rat option \<Rightarrow> row" where
  "mk_row c n p ch = \<lparr>code = c, name = n, price = p, change = ch\<rparr>"

definition s_groupA :: ustr where \<comment> \<open>\<^verbatim>\<open>GroupA\<close>\<close>
  "s_groupA = [71, 114, 111, 117, 112, 65]"

definition s_groupB :: ustr where \<comment> \<open>\<^verbatim>\<open>GroupB\<close>\<close>
  "s_groupB = [71, 114, 111, 117, 112, 66]"

definition code_1 :: ustr where \<comment> \<open>\<^verbatim>\<open>000001\<close>\<close>
  "code_1 = [48, 48, 48, 48, 48, 49]"

definition code_2 :: ustr where \<comment> \<open>\<^verbatim>\<open>000002\<close>\<close>
  "code_2 = [48, 48, 48, 48, 48, 50]"

definition code_3 :: ustr where "code_3 = [48, 48, 48, 48, 48, 51]"
definition code_4 :: ustr where "code_4 = [48, 48, 48, 48, 48, 52]"
definition code_5 :: ustr where "code_5 = [48, 48, 48, 48, 48, 53]"
definition code_6 :: ustr where "code_6 = [48, 48, 48, 48, 48, 54]"

definition code_index :: ustr where \<comment> \<open>\<^verbatim>\<open>990001\<close>\<close>
  "code_index = [57, 57, 48, 48, 48, 49]"

definition s_AAA :: ustr where "s_AAA = [65, 65, 65]"
definition s_BBB :: ustr where "s_BBB = [66, 66, 66]"

definition marker_row :: "ustr \<Rightarrow> row" where
  \<comment> \<open>a row that holds a group label in its code cell\<close>
  "marker_row g = mk_row g [] [] None"

text \<open>
  The rows of the grouping example of the specification: marker \<^verbatim>\<open>GroupA\<close>,
  \<^verbatim>\<open>000001,AAA,10,5\<close>, \<^verbatim>\<open>000002,BBB,11,-3\<close>, marker \<^verbatim>\<open>GroupB\<close>, \<^verbatim>\<open>000001,AAA,12,7\<close>.
\<close>

definition section8_rows :: "row list" where
  "section8_rows =
     [marker_row s_groupA,
      mk_row code_1 s_AAA [49, 48] (Some 5),
      mk_row code_2 s_BBB [49, 49] (Some (- 3)),
      marker_row s_groupB,
      mk_row code_1 s_AAA [49, 50] (Some 7)]"

text \<open>One group in which the code \<^verbatim>\<open>000001\<close> is listed twice.\<close>

definition repeated_rows :: "row list" where
  "repeated_rows =
     [marker_row s_groupA,
      mk_row code_1 s_AAA [49, 48] (Some 5),
      mk_row code_1 s_AAA [49, 48] (Some 5)]"

text \<open>One group of six instruments whose percent changes are 1, 2, 3, 4, 5 and 6.\<close>

definition six_rows :: "row list" where
  "six_rows =
     [marker_row s_groupA,
      mk_row code_1 s_AAA [49, 48] (Some 1),
      mk_row code_2 s_AAA [49, 48] (Some 2),
      mk_row code_3 s_AAA [49, 48] (Some 3),
      mk_row code_4 s_AAA [49, 48] (Some 4),
      mk_row code_5 s_AAA [49, 48] (Some 5),
      mk_row code_6 s_AAA [49, 48] (Some 6)]"

text \<open>A group that holds an instrument and the index \<^verbatim>\<open>990001\<close>.\<close>

definition index_rows :: "row list" where
  "index_rows =
     [marker_row s_groupA,
      mk_row code_1 s_AAA [49, 48] (Some 5),
      mk_row code_index s_BBB [49, 49] (Some 1)]"

text \<open>A footer row whose code cell is the data-source annotation followed by a colon.\<close>

definition noise_row :: row where
  "noise_row = marker_row (s_source @ [58])"

text \<open>
  A single-instrument export: the identity line (four ideographs, a space and
  \<^verbatim>\<open>(000001)\<close>), then the header line, which starts with \<open>s_time\<close>.
\<close>

definition identity_line :: ustr where
  "identity_line = [24179, 23433, 38134, 34892, 32, 40, 48, 48, 48, 48, 48, 49, 41]"

definition header_line :: ustr where
  "header_line = s_time @ [9, 24320, 30424, 9, 25910, 30424]"

definition kline_table :: dataframe where
  "kline_table = \<lparr>columns = [s_time, [24320, 30424], [25910, 30424]], cells = []\<rparr>"

definition xls_env :: file_env where
  "xls_env =
     \<lparr>file_exists = True, suffix = s_xls,
      gbk_readlines = Inr [identity_line, header_line],
      read_csv = (\<lambda>e. Inl ParserError),
      read_csv_tab = (\<lambda>e n. if n = 1 then Inr kline_table else Inl ParserError),
      read_excel = Inl ParserError\<rparr>"

text \<open>
  A real spreadsheet under the same name: its bytes do not decode as GBK, and
  \<^verbatim>\<open>pd.read_excel\<close> reads the table.
\<close>

definition binary_xls_env :: file_env where
  "binary_xls_env =
     \<lparr>file_exists = True, suffix = s_xlsx,
      gbk_readlines = Inl UnicodeDecodeError,
      read_csv = (\<lambda>e. Inl UnicodeDecodeError),
      read_csv_tab = (\<lambda>e n. Inl UnicodeDecodeError),
      read_excel = Inr kline_table\<rparr>"

text \<open>
  A file whose lines are read, with the identity line, but which the tab-delimited parser
  rejects, while \<^verbatim>\<open>pd.read_excel\<close> reads the table.
\<close>

definition rejected_text_env :: file_env where
  "rejected_text_env =
     \<lparr>file_exists = True, suffix = s_xls,
      gbk_readlines = Inr [identity_line, header_line],
      read_csv = (\<lambda>e. Inl ParserError),
      read_csv_tab = (\<lambda>e n. Inl ParserError),
      read_excel = Inr kline_table\<rparr>"

text \<open>
  A watchlist table as the parser returns it: the code column (wrapped as \<^verbatim>\<open>="000001"\<close>)
  and the name column, one instrument row and one comment row.
\<close>

definition watchlist_table :: dataframe where
  "watchlist_table =
     \<lparr>columns = [s_code, s_name],
      cells = [[Text [61, 34, 48, 48, 48, 48, 48, 49, 34], Text s_AAA],
               [Text [35, 110, 111, 116, 101], NaN]]\<rparr>"

text \<open>
  A watchlist table with one row, whose code cell is \<^verbatim>\<open>="#1"\<close>: the cell does not start
  with \<^verbatim>\<open>#\<close>.
\<close>

definition quoted_hash_table :: dataframe where
  "quoted_hash_table =
     \<lparr>columns = [s_code, s_name],
      cells = [[Text [61, 34, 35, 49, 34], Text s_AAA]]\<rparr>"

text \<open>What the analysis returns on \<open>section8_rows\<close> and on \<open>index_rows\<close>.\<close>

definition section8_analysis :: analysis where
  "section8_analysis =
     \<lparr>stock_df = [mk_row code_1 s_AAA [49, 48] (Some 5), mk_row code_2 s_BBB [49, 49] (Some (- 3))],
      index_df = [],
      duplicates = [(code_1, [s_groupA, s_groupB])],
      listing = [(s_groupA, [mk_row code_1 s_AAA [49, 48] (Some 5),
                             mk_row code_2 s_BBB [49, 49] (Some (- 3))]),
                 (s_groupB, [mk_row code_1 s_AAA [49, 50] (Some 7)])],
      top5 = [mk_row code_1 s_AAA [49, 48] (Some 5), mk_row code_2 s_BBB [49, 49] (Some (- 3))],
      bottom5 = [mk_row code_2 s_BBB [49, 49] (Some (- 3)), mk_row code_1 s_AAA [49, 48] (Some 5)]\<rparr>"

definition index_analysis :: analysis where
  "index_analysis =
     \<lparr>stock_df = [mk_row code_1 s_AAA [49, 48] (Some 5)],
      index_df = [mk_row code_index s_BBB [49, 49] (Some 1)],
      duplicates = [],
      listing = [(s_groupA, [mk_row code_1 s_AAA [49, 48] (Some 5)])],
      top5 = [mk_row code_1 s_AAA [49, 48] (Some 5)],
      bottom5 = [mk_row code_1 s_AAA [49, 48] (Some 5)]\<rparr>"

section \<open>Notions used in the statements\<close>

text \<open>The rows that are members of some group.\<close>

definition group_members :: "groups \<Rightarrow> row set" where
  "group_members gs = set (concat (map snd gs))"


section \<open>Facts about the string operations\<close>

lemma startswith_iff: "startswith s p \<longleftrightarrow> (\<exists>t. s = p @ t)"
  by (induction s p rule: startswith.induct) auto

lemma str_in_iff: "str_in sub s \<longleftrightarrow> (\<exists>pre post. s = pre @ sub @ post)"
proof (induction s)
  case Nil
  then show ?case by auto
next
  case (Cons c cs)
  show ?case
  proof
    assume "str_in sub (c # cs)"
    then consider "startswith (c # cs) sub" | "str_in sub cs" by auto
    then show "\<exists>pre post. c # cs = pre @ sub @ post"
    proof cases
      case 1
      then obtain t where "c # cs = sub @ t" by (auto simp: startswith_iff)
      then have "c # cs = [] @ sub @ t" by simp
      then show ?thesis by blast
    next
      case 2
      with Cons obtain pre post where "cs = pre @ sub @ post" by blast
      then have "c # cs = (c # pre) @ sub @ post" by simp
      then show ?thesis by blast
    qed
  next
    assume "\<exists>pre post. c # cs = pre @ sub @ post"
    then obtain pre post where e: "c # cs = pre @ sub @ post" by blast
    show "str_in sub (c # cs)"
    proof (cases pre)
      case Nil
      with e have "startswith (c # cs) sub" by (auto simp: startswith_iff)
      then show ?thesis by simp
    next
      case (Cons a pre')
      with e have "cs = pre' @ sub @ post" by simp
      with Cons.IH have "str_in sub cs" by blast
      then show ?thesis by simp
    qed
  qed
qed

section \<open>Facts about the regular expression\<close>













section \<open>Facts about the cleaning of the code column\<close>

lemma str_remove_single: "str_remove [x] s = filter (\<lambda>c. c \<noteq> x) s"
  by (induction s) auto

lemma clean_code_no_quote: "34 \<notin> set (clean_code s)"
  by (simp add: clean_code_def str_remove_single)

lemma clean_code_keeps_hash: "startswith s [35] \<Longrightarrow> startswith (clean_code s) [35]"
  by (cases s) (auto simp: clean_code_def str_remove_single)

lemma column_index_less: "c \<in> set cols \<Longrightarrow> column_index c cols < length cols \<and> cols ! column_index c cols = c"
  unfolding column_index_def by (induction cols) auto

lemma clean_row_comment:
  assumes "is_comment_row r"
  shows "is_comment_row (clean_row i r)"
proof (cases r)
  case Nil
  with assms show ?thesis by (simp add: is_comment_row_def)
next
  case (Cons c cs)
  with assms have h: "startswith (astype_str c) [35]" by (simp add: is_comment_row_def)
  show ?thesis
  proof (cases i)
    case 0
    with Cons h show ?thesis
      by (simp add: clean_row_def is_comment_row_def astype_str_def clean_code_keeps_hash)
  next
    case (Suc j)
    with Cons h show ?thesis by (simp add: clean_row_def is_comment_row_def)
  qed
qed

section \<open>Facts about grouping, dedup and ranking\<close>

lemma group_step_noise:
  assumes "is_marker isdigit r"
    and "str_in s_dup (group_label r) \<or> str_in s_source (group_label r)"
  shows "group_step isdigit st r = st"
  using assms by (cases st) (auto simp: group_step_def Let_def)

lemma members_ensure_group: "group_members (ensure_group g gs) = group_members gs"
  by (simp add: ensure_group_def group_members_def)

lemma key_ensure_group: "g \<in> fst ` set (ensure_group g gs)"
  by (simp add: ensure_group_def)

lemma members_append_row:
  "group_members (append_row g r gs) =
     group_members gs \<union> (if g \<in> fst ` set gs then {r} else {})"
  unfolding append_row_def group_members_def by (induction gs) (auto split: if_splits)

lemma members_group_step:
  "group_members (fst (group_step isdigit st r)) =
     group_members (fst st) \<union> (if is_marker isdigit r then {} else {r})"
  by (cases st)
     (simp add: group_step_def Let_def members_ensure_group members_append_row key_ensure_group)

lemma members_foldl_group_step:
  "group_members (fst (foldl (group_step isdigit) st xs)) =
     group_members (fst st) \<union> {r \<in> set xs. \<not> is_marker isdigit r}"
proof (induction xs arbitrary: st)
  case Nil
  show ?case by simp
next
  case (Cons x xs)
  show ?case by (simp add: Cons.IH members_group_step) blast
qed

lemma members_group_rows:
  "group_members (fst (group_rows isdigit df)) = {r \<in> set df. \<not> is_marker isdigit r}"
  by (simp add: group_rows_def members_foldl_group_step) (simp add: group_members_def)

lemma concat_nonempty_groups:
  "concat (map snd (filter (\<lambda>(g, rows). rows \<noteq> []) gs)) = concat (map snd gs)"
  by (induction gs) auto

lemma rows_group_dfs:
  "set (concat (map snd (group_dfs isdigit df))) = {r \<in> set df. \<not> is_marker isdigit r}"
  using members_group_rows [of isdigit df]
  unfolding group_members_def group_dfs_def concat_nonempty_groups .

lemma all_stocks_subset: "set (all_stocks isdigit df) \<subseteq> set df"
  using rows_group_dfs [of isdigit df] by (auto simp: all_stocks_def)

lemma data_row_in_all_stocks:
  assumes "r \<in> set df" and "\<not> is_marker isdigit r"
  shows "r \<in> set (all_stocks isdigit df)"
proof -
  from assms have r: "r \<in> set (concat (map snd (group_dfs isdigit df)))"
    unfolding rows_group_dfs by simp
  then have "group_dfs isdigit df \<noteq> []" by auto
  with r show ?thesis by (simp add: all_stocks_def)
qed

lemma strip_keeps_head:
  assumes "\<not> isspace c"
  shows "\<exists>t. strip (c # cs) = c # t"
proof -
  have "dropWhile isspace (rev cs @ [c]) = dropWhile isspace (rev cs) @ [c]
        \<or> dropWhile isspace (rev cs @ [c]) = [c]"
    using assms by (simp add: dropWhile_append)
  then show ?thesis
  proof
    assume "dropWhile isspace (rev cs @ [c]) = dropWhile isspace (rev cs) @ [c]"
    with assms have "strip (c # cs) = c # rev (dropWhile isspace (rev cs))"
      by (simp add: strip_def)
    then show ?thesis by blast
  next
    assume "dropWhile isspace (rev cs @ [c]) = [c]"
    with assms have "strip (c # cs) = c # []" by (simp add: strip_def)
    then show ?thesis by blast
  qed
qed

lemma index_not_marker:
  assumes "isdigit 57" and "is_index r"
  shows "\<not> is_marker isdigit r"
proof -
  from assms(2) obtain t where c: "code r = 57 # 57 # t"
    by (auto simp: is_index_def s_99_def startswith_iff)
  have "\<not> isspace 57" by (simp add: isspace_def)
  from strip_keeps_head [OF this, of "57 # t"] obtain u where "strip (code r) = 57 # u"
    using c by auto
  with assms(1) show ?thesis by (simp add: is_marker_def)
qed

lemma drop_duplicates_fresh:
  "r \<in> set (drop_duplicates seen xs) \<Longrightarrow> code r \<notin> set seen \<and> r \<in> set xs"
  by (induction seen xs rule: drop_duplicates.induct) (auto split: if_splits)

lemma drop_duplicates_distinct: "distinct (map code (drop_duplicates seen xs))"
proof (induction seen xs rule: drop_duplicates.induct)
  case (1 seen)
  show ?case by simp
next
  case (2 seen r rs)
  show ?case
  proof (cases "code r \<in> set seen")
    case True
    with 2 show ?thesis by simp
  next
    case False
    have "code r \<notin> code ` set (drop_duplicates (code r # seen) rs)"
    proof
      assume "code r \<in> code ` set (drop_duplicates (code r # seen) rs)"
      then obtain x where x: "x \<in> set (drop_duplicates (code r # seen) rs)" "code x = code r"
        by auto
      from drop_duplicates_fresh [OF x(1)] x(2) show False by simp
    qed
    with False 2 show ?thesis by simp
  qed
qed

lemma drop_duplicates_first:
  "r \<in> set (drop_duplicates seen xs) \<Longrightarrow> find (\<lambda>x. code x = code r) xs = Some r"
proof (induction seen xs rule: drop_duplicates.induct)
  case (1 seen)
  then show ?case by simp
next
  case (2 seen x xs)
  show ?case
  proof (cases "code x \<in> set seen")
    case True
    with "2.prems" have r: "r \<in> set (drop_duplicates seen xs)" by simp
    then have "code r \<notin> set seen" by (simp add: drop_duplicates_fresh)
    with True have "code x \<noteq> code r" by auto
    with r True "2.IH"(1) show ?thesis by simp
  next
    case False
    with "2.prems" consider "r = x" | "r \<in> set (drop_duplicates (code x # seen) xs)" by auto
    then show ?thesis
    proof cases
      case 1
      then show ?thesis by simp
    next
      case 2
      then have "code r \<noteq> code x" using drop_duplicates_fresh [of r "code x # seen" xs] by auto
      with 2 False "2.IH"(2) show ?thesis by simp
    qed
  qed
qed

lemma drop_duplicates_complete:
  "x \<in> set xs \<Longrightarrow> code x \<notin> set seen \<Longrightarrow> code x \<in> code ` set (drop_duplicates seen xs)"
proof (induction seen xs rule: drop_duplicates.induct)
  case (1 seen)
  then show ?case by simp
next
  case (2 seen r rs)
  then show ?case by (cases "code x = code r") (auto split: if_splits)
qed

lemma first_seen_set: "set (first_seen seen cs) = set cs - set seen"
  by (induction seen cs rule: first_seen.induct) auto

lemma duplicates_keys:
  "fst ` set (duplicates_of acs) = {c. 1 < count_list (map fst acs) c}"
proof -
  have "c \<in> set (map fst acs)" if "1 < count_list (map fst acs) c" for c
    using that by (metis count_notin not_less_zero)
  then show ?thesis
    by (auto simp: duplicates_of_def first_seen_set image_iff)
qed

lemma duplicates_keys_subset:
  "c \<in> fst ` set (duplicates_of acs) \<Longrightarrow> c \<in> fst ` set acs"
  by (force simp: duplicates_of_def first_seen_set)

lemma all_codes_non_index:
  "c \<in> fst ` set (all_codes gdfs) \<Longrightarrow> \<exists>r. code r = c \<and> \<not> is_index r"
  by (auto simp: all_codes_def)

lemma set_insert_desc: "set (insert_desc r ys) = insert r (set ys)"
  by (induction ys) auto

lemma set_sort_values_desc: "set (sort_values_desc rs) = set rs"
  unfolding sort_values_desc_def by (induction rs) (auto simp: set_insert_desc)

lemma listing_no_index:
  "(g, l) \<in> set (group_listing gdfs) \<Longrightarrow> x \<in> set l \<Longrightarrow> \<not> is_index x"
  by (auto simp: group_listing_def set_sort_values_desc)

section \<open>Evaluating the examples\<close>

text \<open>The definitions that the simplifier unfolds to run the model on an example.\<close>

lemmas example_defs = mk_row_def marker_row_def s_groupA_def s_groupB_def code_1_def code_2_def
  code_3_def code_4_def code_5_def code_6_def code_index_def s_AAA_def s_BBB_def

lemmas watchlist_defs = analyze_stock_list_def group_dfs_def group_rows_def group_step_def
  is_marker_def strip_def isspace_def ascii_isdigit_def group_label_def ensure_group_def
  append_row_def s_dup_def s_source_def s_unclassified_def all_stocks_def is_index_def s_99_def
  all_codes_def duplicates_of_def group_listing_def sort_values_desc_def tail_rows_def Let_def

lemmas reader_defs = read_tdx_export_def read_xls_def xls_text_path_def header_idx_def
  call_readlines_def call_read_csv_tab_def call_read_excel_def
  s_xls_def s_xlsx_def s_csv_def s_txt_def s_time_def strip_def isspace_def strip_columns_def
  match_here_def is_cjk_def is_open_paren_def is_close_paren_def ascii_isdigit_def Let_def

lemmas stock_list_defs = read_stock_list_def clean_code_column_def drop_comment_rows_def
  strip_columns_def strip_def isspace_def s_code_def s_name_def column_index_def clean_row_def
  clean_code_def astype_str_def is_comment_row_def rectangular_def

text \<open>The reader on a spreadsheet file, by what the environment gives.\<close>

lemma read_xls_text_ok:
  assumes "file_exists env" and "suffix env \<in> {s_xls, s_xlsx}"
    and "gbk_readlines env = Inr (l0 # ls)"
    and "read_csv_tab env GBK (header_idx (l0 # ls)) = Inr df"
  shows "read_tdx_export env =
           ([OpenReadlines, ReadCsvTab GBK (header_idx (l0 # ls))],
            Some (strip_columns df, re_search (strip l0)))"
proof -
  have sfx: "suffix env \<noteq> s_csv" "suffix env \<noteq> s_txt"
    using assms(2) by (auto simp: s_xls_def s_xlsx_def s_csv_def s_txt_def)
  show ?thesis
    using assms sfx
    by (simp add: read_tdx_export_def read_xls_def xls_text_path_def call_readlines_def
        call_read_csv_tab_def)
qed

lemma read_xls_parser_raised:
  assumes "file_exists env" and "suffix env \<in> {s_xls, s_xlsx}"
    and "gbk_readlines env = Inr (l0 # ls)"
    and "read_csv_tab env GBK (header_idx (l0 # ls)) = Inl e"
  shows "read_tdx_export env =
           ([OpenReadlines, ReadCsvTab GBK (header_idx (l0 # ls)), ReadExcel],
            case read_excel env of
              Inl e' \<Rightarrow> None
            | Inr df \<Rightarrow> Some (df, re_search (strip l0)))"
proof -
  have sfx: "suffix env \<noteq> s_csv" "suffix env \<noteq> s_txt"
    using assms(2) by (auto simp: s_xls_def s_xlsx_def s_csv_def s_txt_def)
  show ?thesis
    using assms sfx
    by (simp add: read_tdx_export_def read_xls_def xls_text_path_def call_readlines_def
        call_read_csv_tab_def call_read_excel_def split: sum.splits)
qed

lemma read_xls_no_lines:
  assumes "file_exists env" and "suffix env \<in> {s_xls, s_xlsx}"
    and "gbk_readlines env = Inl e \<or> gbk_readlines env = Inr []"
  shows "read_tdx_export env =
           ([OpenReadlines, ReadExcel],
            case read_excel env of
              Inl e' \<Rightarrow> None
            | Inr df \<Rightarrow> Some (df, None))"
proof -
  have sfx: "suffix env \<noteq> s_csv" "suffix env \<noteq> s_txt"
    using assms(2) by (auto simp: s_xls_def s_xlsx_def s_csv_def s_txt_def)
  show ?thesis
    using assms sfx
    by (auto simp: read_tdx_export_def read_xls_def xls_text_path_def call_readlines_def
        call_read_excel_def split: sum.splits)
qed

lemma section8_result: "analyze_stock_list ascii_isdigit section8_rows = Some section8_analysis"
  by (simp add: section8_rows_def section8_analysis_def example_defs watchlist_defs)

lemma index_result: "analyze_stock_list ascii_isdigit index_rows = Some index_analysis"
  by (simp add: index_rows_def index_analysis_def example_defs watchlist_defs)

section \<open>Claims\<close>

text \<open>
  C1. The claim: a non-index code is in \<open>duplicates\<close> exactly when the set of group labels
  it appears in has more than one element, and a code that occurs several times inside one
  group only is not a duplicate. The analysis counts occurrences instead
  (\<^verbatim>\<open>Counter([c for c, g in all_codes])\<close> and \<^verbatim>\<open>cnt > 1\<close>): on \<open>repeated_rows\<close>, where the
  only group is \<^verbatim>\<open>GroupA\<close> and lists \<^verbatim>\<open>000001\<close> twice, \<open>duplicates\<close> maps
  \<^verbatim>\<open>000001\<close> to the labels \<^verbatim>\<open>GroupA, GroupA\<close>, and the report, whose heading says
  "selected by several formulas at once", prints it as appearing in \<^verbatim>\<open>GroupA + GroupA\<close>.
\<close>

theorem C1_repeat_within_group:
  "map fst (group_dfs ascii_isdigit repeated_rows) = [s_groupA]
   \<and> map_option duplicates (analyze_stock_list ascii_isdigit repeated_rows) =
       Some [(code_1, [s_groupA, s_groupA])]"
  by (simp add: repeated_rows_def example_defs watchlist_defs)

text \<open>
  C2. The claim: the top-5 slice holds the five records of the master set with the highest
  percent change and the bottom-5 slice the five with the lowest, the master set being
  ranked before it is sliced. The summary slices the master set as it stands
  (\<^verbatim>\<open>stock_df.head(5)\<close> and \<^verbatim>\<open>stock_df.tail(5).iloc[::-1]\<close>; only the per-group listing
  calls \<^verbatim>\<open>sort_values\<close>): on \<open>six_rows\<close>, whose changes are 1 to 6 in table order, the
  slice printed under "top 5 gainers" is 1, 2, 3, 4, 5, without the highest change 6, and
  the slice printed under "top 5 losers" is 6, 5, 4, 3, 2, without the lowest change 1.
\<close>

theorem C2_top5_unsorted:
  "map_option (\<lambda>a. map change (stock_df a)) (analyze_stock_list ascii_isdigit six_rows) =
       Some [Some 1, Some 2, Some 3, Some 4, Some 5, Some 6]
   \<and> map_option (\<lambda>a. map change (top5 a)) (analyze_stock_list ascii_isdigit six_rows) =
       Some [Some 1, Some 2, Some 3, Some 4, Some 5]
   \<and> map_option (\<lambda>a. map change (bottom5 a)) (analyze_stock_list ascii_isdigit six_rows) =
       Some [Some 6, Some 5, Some 4, Some 3, Some 2]"
  by (simp add: six_rows_def example_defs watchlist_defs)

text \<open>
  C3 (amended). In the price summary the percent change from the first to the last close
  is computed, and emitted, exactly when the record count is at least 2, whatever the
  first close is: a zero first close does not omit it (the float division does not raise;
  it gives \<^verbatim>\<open>inf\<close>, \<^verbatim>\<open>-inf\<close> or \<^verbatim>\<open>nan\<close>). Its value is the float expression
  (last - first) / first * 100, computed with the library's float operations, which round
  and may overflow; it is the exact quotient only as far as those operations are exact.
\<close>

theorem C3_percent_change:
  assumes "close \<noteq> []"
  shows "\<exists>ch. price_summary ops close = Inr (last close, ch)
           \<and> (ch = None \<longleftrightarrow> length close < 2)
           \<and> (2 \<le> length close \<longrightarrow>
                ch = Some (fmul ops (fdiv ops (fsub ops (last close) (hd close)) (hd close))
                             (f100 ops)))"
  using assms by (auto simp: price_summary_def total_change_def)

theorem C3_witness:
  "[Fin 8, Fin 12] \<noteq> [] \<and> 2 \<le> length [Fin 8, Fin 12 :: xfloat]
   \<and> price_summary sample_ops [Fin 8, Fin 12] = Inr (Fin 12, Some (Fin 50))"
  using C3_percent_change [of "[Fin 8, Fin 12]" sample_ops]
  by (simp add: price_summary_def total_change_def sample_ops_def)

text \<open>
  The statement that the change is omitted whenever the first close is zero fails on the
  closes 0, 5: the record count is 2, the first close is zero, and the summary holds a
  percent change, \<^verbatim>\<open>inf\<close>.
\<close>

theorem C3_counterexample:
  "hd [Fin 0, Fin 5] = Fin 0
   \<and> price_summary sample_ops [Fin 0, Fin 5] = Inr (Fin 5, Some PInf)"
  by (simp add: price_summary_def total_change_def sample_ops_def)

text \<open>
  C4. After dedup the master set holds at most one record per code; each record kept is
  the first one with its code among the non-index rows of all groups, taken group by
  group in the order the groups were created, and every such code is kept. On the
  grouping example of the specification the master set is the \<^verbatim>\<open>GroupA\<close> row of
  \<^verbatim>\<open>000001\<close> (percent change 5) followed by \<^verbatim>\<open>000002\<close>.
\<close>

theorem C4_master_set:
  assumes "analyze_stock_list isdigit df = Some a"
  shows "distinct (map code (stock_df a))
       \<and> (\<forall>r \<in> set (stock_df a).
            find (\<lambda>x. code x = code r) (filter (\<lambda>x. \<not> is_index x) (all_stocks isdigit df)) = Some r)
       \<and> (\<forall>x \<in> set (all_stocks isdigit df). \<not> is_index x \<longrightarrow> code x \<in> code ` set (stock_df a))
       \<and> (group_dfs isdigit df \<noteq> [] \<longrightarrow>
            all_stocks isdigit df = concat (map snd (group_dfs isdigit df)))
       \<and> map_option stock_df (analyze_stock_list ascii_isdigit section8_rows) =
            Some [mk_row code_1 s_AAA [49, 48] (Some 5), mk_row code_2 s_BBB [49, 49] (Some (- 3))]"
proof -
  let ?xs = "filter (\<lambda>r. \<not> is_index r) (all_stocks isdigit df)"
  from assms have a: "stock_df a = drop_duplicates [] ?xs"
    by (auto simp: analyze_stock_list_def Let_def split: if_splits)
  have 1: "distinct (map code (stock_df a))"
    unfolding a by (rule drop_duplicates_distinct)
  have 2: "\<forall>r \<in> set (stock_df a). find (\<lambda>x. code x = code r) ?xs = Some r"
    unfolding a using drop_duplicates_first by blast
  have 3: "\<forall>x \<in> set (all_stocks isdigit df). \<not> is_index x \<longrightarrow> code x \<in> code ` set (stock_df a)"
  proof (intro ballI impI)
    fix x assume "x \<in> set (all_stocks isdigit df)" "\<not> is_index x"
    then have "x \<in> set ?xs" by simp
    then show "code x \<in> code ` set (stock_df a)"
      unfolding a by (rule drop_duplicates_complete) simp
  qed
  have 4: "group_dfs isdigit df \<noteq> [] \<longrightarrow>
            all_stocks isdigit df = concat (map snd (group_dfs isdigit df))"
    by (simp add: all_stocks_def)
  have 5: "map_option stock_df (analyze_stock_list ascii_isdigit section8_rows) =
            Some [mk_row code_1 s_AAA [49, 48] (Some 5), mk_row code_2 s_BBB [49, 49] (Some (- 3))]"
    by (simp add: section8_result section8_analysis_def)
  from 1 2 3 4 5 show ?thesis by (intro conjI)
qed

theorem C4_witness:
  "analyze_stock_list ascii_isdigit section8_rows = Some section8_analysis
   \<and> distinct (map code (stock_df section8_analysis))
   \<and> find (\<lambda>x. code x = code_1)
        (filter (\<lambda>x. \<not> is_index x) (all_stocks ascii_isdigit section8_rows)) =
       Some (mk_row code_1 s_AAA [49, 48] (Some 5))"
  using C4_master_set [OF section8_result]
  by (simp add: section8_result section8_analysis_def example_defs)

text \<open>
  C5. Every row of the table whose code starts with \<^verbatim>\<open>99\<close> is in the index set, and the
  index set holds only such rows; no row with that prefix is in the master set, in a
  per-group listing or in the top-5 and bottom-5 slices, and no key of \<open>duplicates\<close> has
  the prefix. (\<open>isdigit 57\<close>: the character \<^verbatim>\<open>9\<close> is a digit, so such a row is a data row.)
\<close>

theorem C5_index_exclusion:
  assumes "isdigit 57" and "analyze_stock_list isdigit df = Some a"
  shows "(\<forall>r \<in> set df. is_index r \<longrightarrow> r \<in> set (index_df a))
       \<and> (\<forall>x \<in> set (index_df a). is_index x)
       \<and> (\<forall>x \<in> set (stock_df a). \<not> is_index x)
       \<and> (\<forall>(c, gs) \<in> set (duplicates a). \<not> startswith c s_99)
       \<and> (\<forall>(g, l) \<in> set (listing a). \<forall>x \<in> set l. \<not> is_index x)
       \<and> (\<forall>x \<in> set (top5 a) \<union> set (bottom5 a). \<not> is_index x)"
proof -
  let ?sdf = "drop_duplicates [] (filter (\<lambda>r. \<not> is_index r) (all_stocks isdigit df))"
  from assms(2) have ne: "df \<noteq> []"
    by (auto simp: analyze_stock_list_def split: if_splits)
  from assms(2) ne have a: "a = \<lparr> stock_df = ?sdf,
                  index_df = filter is_index (all_stocks isdigit df),
                  duplicates = duplicates_of (all_codes (group_dfs isdigit df)),
                  listing = group_listing (group_dfs isdigit df),
                  top5 = take 5 ?sdf,
                  bottom5 = rev (tail_rows 5 ?sdf) \<rparr>"
    by (simp add: analyze_stock_list_def Let_def)
  have a1: "stock_df a = ?sdf" by (simp add: a)
  have a2: "index_df a = filter is_index (all_stocks isdigit df)" by (simp add: a)
  have a3: "duplicates a = duplicates_of (all_codes (group_dfs isdigit df))" by (simp add: a)
  have a4: "listing a = group_listing (group_dfs isdigit df)" by (simp add: a)
  have a5: "top5 a = take 5 ?sdf" by (simp add: a)
  have a6: "bottom5 a = rev (tail_rows 5 ?sdf)" by (simp add: a)
  have 1: "\<forall>r \<in> set df. is_index r \<longrightarrow> r \<in> set (index_df a)"
  proof (intro ballI impI)
    fix r assume r: "r \<in> set df" "is_index r"
    then have "\<not> is_marker isdigit r" using assms(1) index_not_marker by blast
    with r(1) have "r \<in> set (all_stocks isdigit df)" by (rule data_row_in_all_stocks)
    with r(2) show "r \<in> set (index_df a)" unfolding a2 by simp
  qed
  have 2: "\<forall>x \<in> set (index_df a). is_index x" unfolding a2 by simp
  have s: "\<not> is_index x" if "x \<in> set ?sdf" for x
    using drop_duplicates_fresh [OF that] by simp
  then have 3: "\<forall>x \<in> set (stock_df a). \<not> is_index x" unfolding a1 by blast
  have 4: "\<forall>(c, gs) \<in> set (duplicates a). \<not> startswith c s_99"
  proof (clarify)
    fix c gs assume m: "(c, gs) \<in> set (duplicates a)" and i: "startswith c s_99"
    from m have "c \<in> fst ` set (duplicates_of (all_codes (group_dfs isdigit df)))"
      unfolding a3 by force
    then have "c \<in> fst ` set (all_codes (group_dfs isdigit df))"
      by (rule duplicates_keys_subset)
    then obtain r where "code r = c" "\<not> is_index r"
      using all_codes_non_index by blast
    with i show False by (simp add: is_index_def)
  qed
  have 5: "\<forall>(g, l) \<in> set (listing a). \<forall>x \<in> set l. \<not> is_index x"
    unfolding a4 using listing_no_index by blast
  have 6: "\<forall>x \<in> set (top5 a) \<union> set (bottom5 a). \<not> is_index x"
  proof
    fix x assume "x \<in> set (top5 a) \<union> set (bottom5 a)"
    then have "x \<in> set ?sdf"
      unfolding a5 a6 tail_rows_def by (auto dest: in_set_takeD in_set_dropD)
    then show "\<not> is_index x" by (rule s)
  qed
  from 1 2 3 4 5 6 show ?thesis by (intro conjI)
qed

theorem C5_witness:
  "ascii_isdigit 57
   \<and> analyze_stock_list ascii_isdigit index_rows = Some index_analysis
   \<and> mk_row code_index s_BBB [49, 49] (Some 1) \<in> set index_rows
   \<and> is_index (mk_row code_index s_BBB [49, 49] (Some 1))
   \<and> index_df index_analysis = [mk_row code_index s_BBB [49, 49] (Some 1)]
   \<and> stock_df index_analysis = [mk_row code_1 s_AAA [49, 48] (Some 5)]
   \<and> duplicates index_analysis = []"
proof -
  have d: "ascii_isdigit 57" by (simp add: ascii_isdigit_def)
  have m: "mk_row code_index s_BBB [49, 49] (Some 1) \<in> set index_rows"
    by (simp add: index_rows_def)
  have i: "is_index (mk_row code_index s_BBB [49, 49] (Some 1))"
    by (simp add: is_index_def s_99_def mk_row_def code_index_def)
  have r: "index_df index_analysis = [mk_row code_index s_BBB [49, 49] (Some 1)]
         \<and> stock_df index_analysis = [mk_row code_1 s_AAA [49, 48] (Some 5)]
         \<and> duplicates index_analysis = []"
    using C5_index_exclusion [OF d index_result] by (simp add: index_analysis_def)
  from d index_result m i r show ?thesis by (intro conjI) simp_all
qed

text \<open>
  C6. For an existing file whose suffix is \<^verbatim>\<open>.xls\<close> or \<^verbatim>\<open>.xlsx\<close> the reader first
  takes the tab-delimited text path (it opens the file as GBK text and, when there are
  lines, calls the tab-delimited parser). When that path returns a table, the table is
  returned and \<^verbatim>\<open>pd.read_excel\<close> is never called. \<^verbatim>\<open>pd.read_excel\<close> is called exactly when
  the text path raised (the read raised, there is no first line, or the parser raised),
  after the calls of the text path, and then its table is what is returned, or
  \<^verbatim>\<open>(None, None)\<close> when it raises too.
\<close>

theorem C6_tab_text_first:
  assumes "file_exists env" and "suffix env \<in> {s_xls, s_xlsx}"
  shows "(\<exists>rest. fst (read_tdx_export env) = OpenReadlines # rest)
       \<and> (ReadExcel \<in> set (fst (read_tdx_export env)) \<longleftrightarrow>
            \<not> (\<exists>l0 ls df. gbk_readlines env = Inr (l0 # ls)
                   \<and> read_csv_tab env GBK (header_idx (l0 # ls)) = Inr df))
       \<and> (\<forall>l0 ls df.
             gbk_readlines env = Inr (l0 # ls)
             \<and> read_csv_tab env GBK (header_idx (l0 # ls)) = Inr df \<longrightarrow>
             read_tdx_export env =
               ([OpenReadlines, ReadCsvTab GBK (header_idx (l0 # ls))],
                Some (strip_columns df, re_search (strip l0))))
       \<and> (\<forall>l0 ls e.
             gbk_readlines env = Inr (l0 # ls)
             \<and> read_csv_tab env GBK (header_idx (l0 # ls)) = Inl e \<longrightarrow>
             read_tdx_export env =
               ([OpenReadlines, ReadCsvTab GBK (header_idx (l0 # ls)), ReadExcel],
                case read_excel env of
                  Inl e' \<Rightarrow> None
                | Inr df \<Rightarrow> Some (df, re_search (strip l0))))
       \<and> ((\<exists>e. gbk_readlines env = Inl e) \<or> gbk_readlines env = Inr [] \<longrightarrow>
             read_tdx_export env =
               ([OpenReadlines, ReadExcel],
                case read_excel env of
                  Inl e' \<Rightarrow> None
                | Inr df \<Rightarrow> Some (df, None)))"
proof -
  note ok = read_xls_text_ok [OF assms]
  note raised = read_xls_parser_raised [OF assms]
  note none = read_xls_no_lines [OF assms]
  consider (nolines) "(\<exists>e. gbk_readlines env = Inl e) \<or> gbk_readlines env = Inr []"
    | (parsed) l0 ls df where "gbk_readlines env = Inr (l0 # ls)"
        "read_csv_tab env GBK (header_idx (l0 # ls)) = Inr df"
    | (rejected) l0 ls e where "gbk_readlines env = Inr (l0 # ls)"
        "read_csv_tab env GBK (header_idx (l0 # ls)) = Inl e"
  proof (cases "gbk_readlines env")
    case (Inl e)
    then show ?thesis using nolines by blast
  next
    case (Inr lines)
    show ?thesis
    proof (cases lines)
      case Nil
      with Inr show ?thesis using nolines by blast
    next
      case (Cons l0 ls)
      with Inr show ?thesis
        using parsed rejected by (cases "read_csv_tab env GBK (header_idx (l0 # ls))") auto
    qed
  qed
  then show ?thesis
  proof cases
    case nolines
    then have g: "gbk_readlines env = Inl (projl (gbk_readlines env)) \<or> gbk_readlines env = Inr []"
      by auto
    from nolines have "\<And>l0 ls. gbk_readlines env \<noteq> Inr (l0 # ls)" by auto
    with none [OF g] show ?thesis by simp
  next
    case parsed
    from ok [OF parsed] parsed show ?thesis by auto
  next
    case rejected
    from raised [OF rejected] rejected show ?thesis by auto
  qed
qed

theorem C6_witness:
  "file_exists xls_env \<and> suffix xls_env \<in> {s_xls, s_xlsx}
   \<and> read_tdx_export xls_env =
       ([OpenReadlines, ReadCsvTab GBK 1],
        Some (kline_table,
              Some \<lparr>info_name = [24179, 23433, 38134, 34892], info_code = [48, 48, 48, 48, 48, 49]\<rparr>))
   \<and> file_exists binary_xls_env \<and> suffix binary_xls_env \<in> {s_xls, s_xlsx}
   \<and> read_tdx_export binary_xls_env = ([OpenReadlines, ReadExcel], Some (kline_table, None))
   \<and> file_exists rejected_text_env \<and> suffix rejected_text_env \<in> {s_xls, s_xlsx}
   \<and> read_tdx_export rejected_text_env =
       ([OpenReadlines, ReadCsvTab GBK 1, ReadExcel],
        Some (kline_table,
              Some \<lparr>info_name = [24179, 23433, 38134, 34892], info_code = [48, 48, 48, 48, 48, 49]\<rparr>))"
proof -
  have 1: "file_exists xls_env \<and> suffix xls_env \<in> {s_xls, s_xlsx}"
    by (simp add: xls_env_def)
  have 2: "file_exists binary_xls_env \<and> suffix binary_xls_env \<in> {s_xls, s_xlsx}"
    by (simp add: binary_xls_env_def)
  have 3: "file_exists rejected_text_env \<and> suffix rejected_text_env \<in> {s_xls, s_xlsx}"
    by (simp add: rejected_text_env_def)
  have a: "read_tdx_export xls_env =
       ([OpenReadlines, ReadCsvTab GBK 1],
        Some (kline_table,
              Some \<lparr>info_name = [24179, 23433, 38134, 34892], info_code = [48, 48, 48, 48, 48, 49]\<rparr>))"
    using C6_tab_text_first [of xls_env] 1
    by (simp add: xls_env_def identity_line_def header_line_def kline_table_def reader_defs)
  have b: "read_tdx_export binary_xls_env = ([OpenReadlines, ReadExcel], Some (kline_table, None))"
    using C6_tab_text_first [of binary_xls_env] 2
    by (simp add: binary_xls_env_def kline_table_def reader_defs)
  have c: "read_tdx_export rejected_text_env =
       ([OpenReadlines, ReadCsvTab GBK 1, ReadExcel],
        Some (kline_table,
              Some \<lparr>info_name = [24179, 23433, 38134, 34892], info_code = [48, 48, 48, 48, 48, 49]\<rparr>))"
    using C6_tab_text_first [of rejected_text_env] 3
    by (simp add: rejected_text_env_def identity_line_def header_line_def kline_table_def
        reader_defs)
  from 1 2 3 a b c show ?thesis by (intro conjI) simp_all
qed

text \<open>
  C7. A marker row whose label contains \<open>s_dup\<close> ("duplicate") or \<open>s_source\<close>
  ("data source") leaves the groups and the current group as they were, so it creates no
  group and adds no member; grouping the table with the row is grouping it without.
\<close>

theorem C7_noise_rows:
  assumes "is_marker isdigit r"
    and "str_in s_dup (group_label r) \<or> str_in s_source (group_label r)"
  shows "group_step isdigit (gs, current_group) r = (gs, current_group)
       \<and> group_rows isdigit (xs @ r # ys) = group_rows isdigit (xs @ ys)"
  using assms by (simp add: group_step_noise group_rows_def)

theorem C7_witness:
  "is_marker ascii_isdigit noise_row
   \<and> str_in s_source (group_label noise_row)
   \<and> group_step ascii_isdigit ([(s_groupA, [])], s_groupA) noise_row = ([(s_groupA, [])], s_groupA)"
  using C7_noise_rows [of ascii_isdigit noise_row "[(s_groupA, [])]" s_groupA "[]" "[]"]
  by (simp add: noise_row_def example_defs watchlist_defs)



text \<open>
  C9. A document is classified as a watchlist exactly when its first line was read and
  decoded (as GBK) and contains both the substring \<open>s_code\<close> (U+4EE3 U+7801, "code") and
  the substring \<open>s_name\<close> (U+540D U+79F0, "name"); when reading or decoding raised any
  exception the document is classified as not a watchlist, and the classifier returns.
\<close>

theorem C9_is_stock_list:
  "(is_stock_list r \<longleftrightarrow>
      (\<exists>first_line. r = Inr first_line
         \<and> (\<exists>a b. first_line = a @ [20195, 30721] @ b)
         \<and> (\<exists>a b. first_line = a @ [21517, 31216] @ b)))
   \<and> is_stock_list (Inl e) = False"
  by (cases r) (auto simp: is_stock_list_def str_in_iff s_code_def s_name_def)

text \<open>
  C10 (amended). When \<^verbatim>\<open>read_stock_list\<close> returns a table: its column names are the
  stripped names; every cell of the code column is replaced by the text of the original
  cell (the text \<^verbatim>\<open>nan\<close> for an empty cell) with \<^verbatim>\<open>="\<close> and then \<^verbatim>\<open>"\<close> removed, so no
  \<^verbatim>\<open>"\<close> is left in it; then the rows whose first cell, as it is after that cleaning,
  starts with \<^verbatim>\<open>#\<close> are dropped, among them every row whose first cell started with
  \<^verbatim>\<open>#\<close> before; the other rows are returned in order, their cells outside the code
  column unchanged.
\<close>

theorem C10_read_stock_list:
  assumes "rectangular df" and "read_stock_list (Inr lines) (Inr df) = Some out"
  shows "columns out = map strip (columns df)
       \<and> (s_code \<notin> set (columns out) \<longrightarrow>
            cells out = filter (\<lambda>r. \<not> is_comment_row r) (cells df))
       \<and> (s_code \<in> set (columns out) \<longrightarrow>
            (\<exists>i < length (columns out). columns out ! i = s_code
               \<and> cells out = map (clean_row i) (filter (\<lambda>r. \<not> is_comment_row (clean_row i r)) (cells df))
               \<and> (\<forall>r \<in> set (cells df).
                     clean_row i r ! i = Text (clean_code (astype_str (r ! i)))
                   \<and> 34 \<notin> set (clean_code (astype_str (r ! i)))
                   \<and> (\<forall>j. j \<noteq> i \<longrightarrow> clean_row i r ! j = r ! j)
                   \<and> (is_comment_row r \<longrightarrow> is_comment_row (clean_row i r)))))"
proof -
  let ?cols = "map strip (columns df)"
  let ?i = "column_index s_code ?cols"
  from assms(2) obtain df1 where
    c1: "clean_code_column (strip_columns df) = Inr df1" and d1: "drop_comment_rows df1 = Inr out"
    by (auto simp: read_stock_list_def split: sum.splits)
  from c1 have cols1: "columns df1 = ?cols"
    by (auto simp: clean_code_column_def strip_columns_def split: if_splits)
  from d1 have out: "columns out = columns df1"
      "cells out = filter (\<lambda>r. \<not> is_comment_row r) (cells df1)"
    by (auto simp: drop_comment_rows_def split: if_splits)
  have A: "columns out = ?cols" using out cols1 by simp
  have B: "s_code \<notin> set (columns out) \<longrightarrow>
            cells out = filter (\<lambda>r. \<not> is_comment_row r) (cells df)"
  proof
    assume "s_code \<notin> set (columns out)"
    with A have "s_code \<notin> set (columns (strip_columns df))" by (simp add: strip_columns_def)
    with c1 have "df1 = strip_columns df" by (simp add: clean_code_column_def)
    then have "cells df1 = cells df" by (simp add: strip_columns_def)
    with out show "cells out = filter (\<lambda>r. \<not> is_comment_row r) (cells df)" by simp
  qed
  have C: "\<exists>i < length (columns out). columns out ! i = s_code
               \<and> cells out = map (clean_row i) (filter (\<lambda>r. \<not> is_comment_row (clean_row i r)) (cells df))
               \<and> (\<forall>r \<in> set (cells df).
                     clean_row i r ! i = Text (clean_code (astype_str (r ! i)))
                   \<and> 34 \<notin> set (clean_code (astype_str (r ! i)))
                   \<and> (\<forall>j. j \<noteq> i \<longrightarrow> clean_row i r ! j = r ! j)
                   \<and> (is_comment_row r \<longrightarrow> is_comment_row (clean_row i r)))"
    if present: "s_code \<in> set (columns out)"
  proof -
    from present A have p: "s_code \<in> set ?cols" by simp
    then have i: "?i < length ?cols" "?cols ! ?i = s_code"
      using column_index_less by blast+
    from c1 p have "cells df1 = map (clean_row ?i) (cells df)"
      by (auto simp: clean_code_column_def strip_columns_def split: if_splits)
    then have cells: "cells out = map (clean_row ?i) (filter (\<lambda>r. \<not> is_comment_row (clean_row ?i r)) (cells df))"
      using out by (simp add: filter_map comp_def)
    have rows: "clean_row ?i r ! ?i = Text (clean_code (astype_str (r ! ?i)))
                   \<and> 34 \<notin> set (clean_code (astype_str (r ! ?i)))
                   \<and> (\<forall>j. j \<noteq> ?i \<longrightarrow> clean_row ?i r ! j = r ! j)
                   \<and> (is_comment_row r \<longrightarrow> is_comment_row (clean_row ?i r))"
      if "r \<in> set (cells df)" for r
    proof -
      from that assms(1) have "length r = length (columns df)"
        by (auto simp: rectangular_def list_all_iff)
      with i(1) have "?i < length r" by simp
      then show ?thesis
        by (simp add: clean_row_def clean_code_no_quote clean_row_comment [unfolded clean_row_def])
    qed
    show ?thesis
      using i cells rows A by (intro exI [of _ ?i]) simp
  qed
  show ?thesis using A B C by blast
qed

theorem C10_witness:
  "rectangular watchlist_table
   \<and> read_stock_list (Inr []) (Inr watchlist_table) =
       Some \<lparr>columns = [s_code, s_name], cells = [[Text code_1, Text s_AAA]]\<rparr>"
  using C10_read_stock_list [of watchlist_table "[]"]
  by (simp add: watchlist_table_def rectangular_def read_stock_list_def clean_code_column_def
      drop_comment_rows_def strip_columns_def strip_def isspace_def s_code_def s_name_def
      column_index_def clean_row_def clean_code_def astype_str_def is_comment_row_def
      code_1_def s_AAA_def)

text \<open>
  The statement that every row whose first cell does not start with \<^verbatim>\<open>#\<close> is returned
  fails on \<open>quoted_hash_table\<close>: the code column is the first one, the cell \<^verbatim>\<open>="#1"\<close> does
  not start with \<^verbatim>\<open>#\<close>, it is cleaned to \<^verbatim>\<open>#1\<close> before the rows are filtered, and the
  row is dropped.
\<close>

theorem C10_counterexample:
  "\<not> is_comment_row [Text [61, 34, 35, 49, 34], Text s_AAA]
   \<and> cells quoted_hash_table = [[Text [61, 34, 35, 49, 34], Text s_AAA]]
   \<and> read_stock_list (Inr []) (Inr quoted_hash_table) =
       Some \<lparr>columns = [s_code, s_name], cells = []\<rparr>"
  by (simp add: quoted_hash_table_def stock_list_defs s_AAA_def)

end
